theory Spec2Isabelle
  imports Complex_Main "HOL-Library.Multiset"
begin

section \<open>Values under test\<close>

text \<open>
  The predicates of \<^verbatim>\<open>is.ts\<close> take a value of type \<^verbatim>\<open>unknown\<close>. The operations they
  apply to it are \<^verbatim>\<open>typeof\<close>, \<^verbatim>\<open>Array.isArray\<close>, \<^verbatim>\<open>===\<close> against a primitive,
  \<^verbatim>\<open>Array.prototype.includes\<close>, \<^verbatim>\<open>length\<close>, indexing, \<^verbatim>\<open>every\<close>, \<^verbatim>\<open>slice\<close>, \<^verbatim>\<open>for .. in\<close>,
  \<^verbatim>\<open>Object.keys\<close>, \<^verbatim>\<open>instanceof\<close> and a property read \<^verbatim>\<open>x[k]\<close>, which follows the prototype
  chain. The value model keeps what these operations observe.

  Property keys are strings. Symbol keys, holes in arrays, and arrays that carry properties
  of their own besides their elements (one that shadows \<^verbatim>\<open>every\<close> or \<^verbatim>\<open>slice\<close>, say) are
  outside the model.

  A number is NaN, an infinity or a finite value. No arithmetic is done on the value under
  test, only comparison, so a finite double is kept as the real number it denotes; the two
  zeros are one value, since neither \<^verbatim>\<open>===\<close> nor \<^verbatim>\<open>includes\<close> tells them apart.
\<close>

datatype number = NaN | NegInfinity | PosInfinity | Num real

datatype primitive =
    PString string
  | PNumber number
  | PBigInt int
  | PBoolean bool
  | PNull
  | PUndefined
  | PSymbol nat

text \<open>
  A property of an object is read with \<^verbatim>\<open>x[k]\<close>. The read returns the stored value, or
  runs an accessor, which returns a value or throws. A slot is what the read does.
\<close>

datatype 'v slot = Value 'v | Raises

text \<open>
  \<^item> \<open>Arr xs\<close> is a genuine array with the elements \<open>xs\<close>: its \<^verbatim>\<open>length\<close> is \<open>length xs\<close>, its
    elements are data properties, and \<^verbatim>\<open>every\<close> and \<^verbatim>\<open>slice\<close> are the built-in methods.
  \<^item> \<open>Obj own rest protos\<close> is an ordinary object. \<open>own\<close> are its own enumerable properties,
    in the order \<^verbatim>\<open>Object.keys\<close> lists them. \<open>rest\<close> are the other properties a read
    \<^verbatim>\<open>x[k]\<close> can find, in the order the read meets them: the own properties that are not
    enumerable, then the properties of the objects on the prototype chain, nearest first;
    the flag of each says whether it is enumerable. \<open>protos\<close> are the identities of the
    objects on the prototype chain, nearest first, which is what \<^verbatim>\<open>instanceof\<close> walks. An
    object of another realm is an object whose chain has none of the identities of this one.
  \<^item> \<open>Fun r\<close> is a function, a reference into the store of function objects (see below).
  \<^item> \<open>Proxy isArr\<close> is a hostile value: \<^verbatim>\<open>new Proxy(target, handler)\<close> where every trap of
    the handler throws and the target is \<^verbatim>\<open>[]\<close> (when \<open>isArr\<close>) or \<^verbatim>\<open>{}\<close>. \<^verbatim>\<open>typeof\<close> and
    \<^verbatim>\<open>Array.isArray\<close> look at the target and run no trap; every property read, key
    enumeration and prototype lookup throws.

  The type is a codatatype, so that a value may be infinitely deep: that is what a cyclic
  object is to a reader who follows its properties.
\<close>

codatatype jsval =
    Prim primitive
  | Arr "jsval list"
  | Obj "(string \<times> jsval slot) list" "(string \<times> bool \<times> jsval slot) list" "nat list"
  | Fun nat
  | Proxy bool

abbreviation undefined_val :: jsval where
  "undefined_val \<equiv> Prim PUndefined"

section \<open>Results\<close>

text \<open>
  A call either returns or raises. \<open>TypeError\<close> is what the language raises itself (calling
  what is not a function, destructuring \<^verbatim>\<open>undefined\<close>); \<open>Thrown\<close> is an exception thrown
  by an accessor or a proxy trap of the value under test.
\<close>

datatype error = TypeError | Thrown

type_synonym 'a result = "error + 'a"

type_synonym predicate = "jsval \<Rightarrow> bool result"

text \<open>\<^verbatim>\<open>a && b\<close> and \<^verbatim>\<open>a || b\<close> on calls that return booleans.\<close>

definition andalso :: "bool result \<Rightarrow> bool result \<Rightarrow> bool result" where
  "andalso a b = (case a of Inl e \<Rightarrow> Inl e | Inr v \<Rightarrow> if v then b else Inr False)"

definition orelse :: "bool result \<Rightarrow> bool result \<Rightarrow> bool result" where
  "orelse a b = (case a of Inl e \<Rightarrow> Inl e | Inr v \<Rightarrow> if v then Inr True else b)"

text \<open>\<^verbatim>\<open>xs.every(f)\<close>: the callback gets the element and its index; stops at the first false.\<close>

fun every :: "('a \<Rightarrow> nat \<Rightarrow> bool result) \<Rightarrow> 'a list \<Rightarrow> nat \<Rightarrow> bool result" where
  "every f [] i = Inr True"
| "every f (a # as) i =
     (case f a i of
        Inl e \<Rightarrow> Inl e
      | Inr v \<Rightarrow> if v then every f as (Suc i) else Inr False)"


text \<open>\<^verbatim>\<open>xs[i]\<close> on an array: \<^verbatim>\<open>undefined\<close> out of range.\<close>

definition index :: "jsval list \<Rightarrow> nat \<Rightarrow> jsval" where
  "index xs i = (if i < length xs then xs ! i else undefined_val)"

text \<open>\<^verbatim>\<open>x === literal\<close> for a primitive literal: same type and value, and NaN equals nothing.\<close>

definition strictEquals :: "jsval \<Rightarrow> primitive \<Rightarrow> bool" where
  "strictEquals x literal =
     (case x of
        Prim p \<Rightarrow> (case p of PNumber NaN \<Rightarrow> False | _ \<Rightarrow> p = literal)
      | _ \<Rightarrow> False)"

text \<open>SameValueZero, the comparison of \<^verbatim>\<open>includes\<close>: as \<^verbatim>\<open>===\<close>, but NaN equals NaN.\<close>

definition sameValueZero :: "jsval \<Rightarrow> primitive \<Rightarrow> bool" where
  "sameValueZero x literal = (case x of Prim p \<Rightarrow> p = literal | _ \<Rightarrow> False)"

definition includes_arr :: "primitive list \<Rightarrow> jsval \<Rightarrow> bool" where
  "includes_arr literals x = list_ex (sameValueZero x) literals"

text \<open>Reading a slot: the stored value, or what the accessor does.\<close>

definition readSlot :: "jsval slot \<Rightarrow> jsval result" where
  "readSlot s = (case s of Value v \<Rightarrow> Inr v | Raises \<Rightarrow> Inl Thrown)"

text \<open>
  \<^verbatim>\<open>x[k]\<close> on the object \<open>Obj own rest protos\<close>: the own enumerable property \<open>k\<close> when there
  is one; otherwise the first property \<open>k\<close> among the others, which is an own property that
  is not enumerable or an inherited one; \<^verbatim>\<open>undefined\<close> when the object and its chain have
  no property \<open>k\<close>.
\<close>

definition getProp ::
  "(string \<times> jsval slot) list \<Rightarrow> (string \<times> bool \<times> jsval slot) list \<Rightarrow> string \<Rightarrow> jsval result" where
  "getProp own rest k =
     (case map_of own k of
        Some s \<Rightarrow> readSlot s
      | None \<Rightarrow>
          (case map_of rest k of
             Some (e, s) \<Rightarrow> readSlot s
           | None \<Rightarrow> Inr undefined_val))"



text \<open>
  \<^verbatim>\<open>x instanceof ctor\<close> for a constructor without a \<^verbatim>\<open>Symbol.hasInstance\<close> of its own, given
  by the identity of its \<^verbatim>\<open>prototype\<close> object: \<^verbatim>\<open>false\<close> for a primitive, otherwise whether
  that object is on the prototype chain of \<open>x\<close>. Arrays and functions have the chains of
  the built-in ones; the proxy throws when asked for its prototype.
\<close>

datatype ctor = Ctor nat

definition objectProto :: nat where
  "objectProto = 0"

definition functionProto :: nat where
  "functionProto = 1"

definition arrayProto :: nat where
  "arrayProto = 2"

definition instanceof :: "jsval \<Rightarrow> ctor \<Rightarrow> bool result" where
  "instanceof x c =
     (case c of Ctor proto \<Rightarrow>
        (case x of
           Prim p \<Rightarrow> Inr False
         | Arr xs \<Rightarrow> Inr (proto \<in> set [arrayProto, objectProto])
         | Obj own rest protos \<Rightarrow> Inr (proto \<in> set protos)
         | Fun r \<Rightarrow> Inr (proto \<in> set [functionProto, objectProto])
         | Proxy isArr \<Rightarrow> Inl Thrown))"

section \<open>Leaf predicates of is.ts\<close>

definition isAny :: predicate where
  "isAny x = Inr True"


definition isString :: predicate where
  "isString x = Inr (case x of Prim (PString s) \<Rightarrow> True | _ \<Rightarrow> False)"

definition isNumber :: predicate where
  "isNumber x = Inr (case x of Prim (PNumber n) \<Rightarrow> True | _ \<Rightarrow> False)"


definition isBoolean :: predicate where
  "isBoolean x = Inr (case x of Prim (PBoolean b) \<Rightarrow> True | _ \<Rightarrow> False)"

definition isArray :: "jsval \<Rightarrow> bool" where
  "isArray x = (case x of Arr xs \<Rightarrow> True | Proxy isArr \<Rightarrow> isArr | _ \<Rightarrow> False)"


definition isUndefined :: predicate where
  "isUndefined x = Inr (case x of Prim PUndefined \<Rightarrow> True | _ \<Rightarrow> False)"

definition isNullish :: "jsval \<Rightarrow> bool" where
  "isNullish x = (case x of Prim PNull \<Rightarrow> True | Prim PUndefined \<Rightarrow> True | _ \<Rightarrow> False)"


text \<open>\<^verbatim>\<open>isFunction\<close> is \<^verbatim>\<open>x instanceof Function\<close>.\<close>

definition isFunction :: predicate where
  "isFunction x = instanceof x (Ctor functionProto)"


text \<open>
  \<^verbatim>\<open>isRecord\<close>: not nullish, not an array, and \<^verbatim>\<open>typeof x === "object"\<close>, which holds for
  \<^verbatim>\<open>null\<close>, arrays, objects and proxies of them, and not for functions.
\<close>

definition typeof_object :: "jsval \<Rightarrow> bool" where
  "typeof_object x =
     (case x of Prim p \<Rightarrow> (case p of PNull \<Rightarrow> True | _ \<Rightarrow> False)
              | Arr xs \<Rightarrow> True | Obj own rest protos \<Rightarrow> True | Fun r \<Rightarrow> False
              | Proxy isArr \<Rightarrow> True)"

definition isRecord :: "jsval \<Rightarrow> bool" where
  "isRecord x = (if isNullish x \<or> isArray x then False else typeof_object x)"

section \<open>Combinators of is.ts\<close>

text \<open>
  Each combinator returns an arrow function; the definition below is that function, with
  the combinator's arguments first and the value under test last. The \<^verbatim>\<open>name\<close> getter that
  \<^verbatim>\<open>Object.defineProperties\<close> adds is a display string and is left out. After the test
  \<^verbatim>\<open>isArray(x)\<close> the value is \<open>Arr xs\<close> or the array proxy, and the first thing read from the
  proxy (\<^verbatim>\<open>x.every\<close>, \<^verbatim>\<open>x.length\<close>) throws. \<^verbatim>\<open>isSyncFunction\<close> and \<^verbatim>\<open>isAsyncFunction\<close> need
  \<^verbatim>\<open>toString\<close> tags, which the value model does not have, and are left out.
\<close>

definition isArrayOf :: "predicate \<Rightarrow> predicate" where
  "isArrayOf pred x =
     (if \<not> isArray x then Inr False
      else (case x of Arr xs \<Rightarrow> every (\<lambda>v i. pred v) xs 0 | _ \<Rightarrow> Inl Thrown))"

definition isTupleOf :: "predicate list \<Rightarrow> predicate option \<Rightarrow> predicate" where
  "isTupleOf predTup predElse x =
     (case predElse of
        None \<Rightarrow>
          (if \<not> isArray x then Inr False
           else (case x of
                   Arr xs \<Rightarrow>
                     if length xs \<noteq> length predTup then Inr False
                     else every (\<lambda>pred i. pred (index xs i)) predTup 0
                 | _ \<Rightarrow> Inl Thrown))
      | Some pe \<Rightarrow>
          (if \<not> isArray x then Inr False
           else (case x of
                   Arr xs \<Rightarrow>
                     if length xs < length predTup then Inr False
                     else
                       let head = take (length predTup) xs;
                           tail = drop (length predTup) xs
                       in andalso (every (\<lambda>pred i. pred (index head i)) predTup 0) (pe (Arr tail))
                 | _ \<Rightarrow> Inl Thrown)))"


text \<open>\<^verbatim>\<open>Array(n).fill(pred)\<close> is \<open>n\<close> copies of \<open>pred\<close>; \<open>pred\<close> defaults to \<open>isAny\<close>.\<close>

definition isUniformTupleOf :: "nat \<Rightarrow> predicate option \<Rightarrow> predicate" where
  "isUniformTupleOf n pred =
     (let p = (case pred of None \<Rightarrow> isAny | Some q \<Rightarrow> q);
          predInner = isTupleOf (replicate n p) None
      in (\<lambda>x. predInner x))"




text \<open>
  A descriptor \<^verbatim>\<open>predObj\<close> is an object literal holding predicates: the list of its keys
  with their predicates, in enumeration order, each key once; nothing enumerable is
  inherited. The loop \<^verbatim>\<open>for (const k in predObj) if (!predObj[k](x[k])) return false\<close>
  visits each pair; on the proxy every read \<^verbatim>\<open>x[k]\<close> throws.
\<close>

fun isObjectOfLoose_loop :: "(string \<times> predicate) list \<Rightarrow> (string \<Rightarrow> jsval result) \<Rightarrow> bool result" where
  "isObjectOfLoose_loop [] read = Inr True"
| "isObjectOfLoose_loop ((k, pred) # predObj) read =
     (case read k of
        Inl e \<Rightarrow> Inl e
      | Inr v \<Rightarrow>
          (case pred v of
             Inl e \<Rightarrow> Inl e
           | Inr b \<Rightarrow> if \<not> b then Inr False else isObjectOfLoose_loop predObj read))"

definition isObjectOfLoose :: "(string \<times> predicate) list \<Rightarrow> predicate" where
  "isObjectOfLoose predObj x =
     (if \<not> isRecord x then Inr False
      else (case x of
              Obj own rest protos \<Rightarrow> isObjectOfLoose_loop predObj (getProp own rest)
            | _ \<Rightarrow> isObjectOfLoose_loop predObj (\<lambda>k. Inl Thrown)))"

text \<open>
  \<^verbatim>\<open>new Set(Object.keys(predObj))\<close> is the list of keys without repetition; \<^verbatim>\<open>keys.size\<close> is
  its length and \<^verbatim>\<open>keys.has(k)\<close> is membership. \<^verbatim>\<open>Object.keys(x)\<close> is reached only for a
  value the loose predicate accepted: an object, whose own enumerable keys it lists, or
  the object proxy, on which it throws.
\<close>

definition isObjectOfStrict :: "(string \<times> predicate) list \<Rightarrow> predicate" where
  "isObjectOfStrict predObj x =
     (let keys = remdups (map fst predObj);
          pred = isObjectOfLoose predObj
      in case pred x of
           Inl e \<Rightarrow> Inl e
         | Inr b \<Rightarrow>
             if \<not> b then Inr False
             else (case x of
                     Obj own rest protos \<Rightarrow>
                       let ks = map fst own
                       in Inr (length ks \<le> length keys \<and> list_all (\<lambda>k. k \<in> set keys) ks)
                   | _ \<Rightarrow> Inl Thrown))"

definition isObjectOf :: "(string \<times> predicate) list \<Rightarrow> bool \<Rightarrow> predicate" where
  "isObjectOf predObj strict =
     (if strict then isObjectOfStrict predObj else isObjectOfLoose predObj)"


definition isLiteralOf :: "primitive \<Rightarrow> predicate" where
  "isLiteralOf literal x = Inr (strictEquals x literal)"

definition isLiteralOneOf :: "primitive list \<Rightarrow> predicate" where
  "isLiteralOneOf literals x = Inr (includes_arr literals x)"



text \<open>The arrow function of \<^verbatim>\<open>isOptionalOf\<close>: \<^verbatim>\<open>isUndefined(x) || pred(x)\<close>.\<close>

definition isOptionalOf_fn :: "predicate \<Rightarrow> predicate" where
  "isOptionalOf_fn pred x = orelse (isUndefined x) (pred x)"

section \<open>Function objects\<close>

text \<open>
  A predicate is a function object: it has an identity, the code it runs when called, and
  properties. \<^verbatim>\<open>asOptional\<close>, \<^verbatim>\<open>asRequired\<close> and \<^verbatim>\<open>isOptionalOf\<close> read and define the own
  property \<^verbatim>\<open>optional\<close> and the factory metadata, and return references, so they are modelled
  over a store of function objects. A reference is an index into the store; allocation
  appends. The code of a function object never changes, so a closure that captured the
  reference \<open>pred\<close> when the store was \<open>s\<close> calls \<open>callFn s pred\<close>.
\<close>

record factory_metadata =
  meta_name :: string
  meta_args :: "jsval list"

record fobj =
  call :: predicate
  optional :: bool
  metadata :: "factory_metadata option"

type_synonym store = "fobj list"

type_synonym ref = nat

definition lookup :: "store \<Rightarrow> ref \<Rightarrow> fobj option" where
  "lookup s r = (if r < length s then Some (s ! r) else None)"

definition alloc :: "store \<Rightarrow> predicate \<Rightarrow> ref \<times> store" where
  "alloc s f = (length s, s @ [\<lparr>call = f, optional = False, metadata = None\<rparr>])"

text \<open>\<^verbatim>\<open>pred(x)\<close>: calling what is not a function raises a TypeError.\<close>

definition callFn :: "store \<Rightarrow> ref \<Rightarrow> predicate" where
  "callFn s r x = (case lookup s r of None \<Rightarrow> Inl TypeError | Some f \<Rightarrow> call f x)"

text \<open>\<^verbatim>\<open>Object.defineProperties(f, { optional: { value: true } })\<close>.\<close>

definition defineOptional :: "store \<Rightarrow> ref \<Rightarrow> ref \<times> store" where
  "defineOptional s r =
     (case lookup s r of None \<Rightarrow> (r, s) | Some f \<Rightarrow> (r, s[r := f\<lparr>optional := True\<rparr>]))"

text \<open>
  \<^verbatim>\<open>metadata.ts\<close> and the \<^verbatim>\<open>isOptional\<close> that \<^verbatim>\<open>as.ts\<close> imports from \<^verbatim>\<open>is.ts\<close> are not among
  the sources; the three helpers below follow the spec.
\<close>

text \<open>
  Modelled from the spec: \<^verbatim>\<open>setPredicateFactoryMetadata\<close> of \<^verbatim>\<open>metadata.ts\<close> is missing. The
  spec has \<^verbatim>\<open>attach(predicate, metadata) -> predicate\<close>, which records the metadata for the
  predicate and returns the same predicate.
\<close>

definition setPredicateFactoryMetadata :: "store \<Rightarrow> ref \<Rightarrow> factory_metadata \<Rightarrow> ref \<times> store" where
  "setPredicateFactoryMetadata s r m =
     (case lookup s r of None \<Rightarrow> (r, s) | Some f \<Rightarrow> (r, s[r := f\<lparr>metadata := Some m\<rparr>]))"

text \<open>
  Modelled from the spec: \<^verbatim>\<open>getPredicateFactoryMetadata\<close> of \<^verbatim>\<open>metadata.ts\<close> is missing. The
  spec has \<^verbatim>\<open>lookup(predicate) -> metadata | absent\<close>, which retrieves the metadata attached
  before and never throws.
\<close>

definition getPredicateFactoryMetadata :: "store \<Rightarrow> ref \<Rightarrow> factory_metadata option" where
  "getPredicateFactoryMetadata s r =
     (case lookup s r of None \<Rightarrow> None | Some f \<Rightarrow> metadata f)"

text \<open>
  Modelled from the spec: the \<^verbatim>\<open>isOptional\<close> that \<^verbatim>\<open>as.ts\<close> imports is missing. The spec has
  the optional facet as a boolean flag \<^verbatim>\<open>optional: true\<close> attached to a predicate, detected
  by a dedicated facet check and not by the name in the metadata. It is the property that
  \<^verbatim>\<open>isOptionalOf\<close> of \<^verbatim>\<open>is.ts\<close> and \<^verbatim>\<open>asOptional\<close> of \<^verbatim>\<open>part_000\<close> define.
\<close>

definition isOptional :: "store \<Rightarrow> ref \<Rightarrow> bool" where
  "isOptional s r = (case lookup s r of None \<Rightarrow> False | Some f \<Rightarrow> optional f)"

subsection \<open>as.ts\<close>

text \<open>
  \<^verbatim>\<open>asOptional\<close> as in \<^verbatim>\<open>part_000\<close>: return \<open>pred\<close> itself when it is optional; otherwise
  allocate the arrow function \<^verbatim>\<open>x === undefined || pred(x)\<close>, attach the metadata
  \<^verbatim>\<open>{ name: "asOptional", args: [pred] }\<close> and define \<^verbatim>\<open>optional\<close>.
\<close>

definition asOptional :: "store \<Rightarrow> ref \<Rightarrow> ref \<times> store" where
  "asOptional s pred =
     (if isOptional s pred then (pred, s)
      else
        let (f, s1) = alloc s (\<lambda>x. orelse (Inr (strictEquals x PUndefined)) (callFn s pred x));
            (f, s2) = setPredicateFactoryMetadata s1 f
                        \<lparr>meta_name = ''asOptional'', meta_args = [Fun pred]\<rparr>
        in defineOptional s2 f)"

text \<open>
  \<^verbatim>\<open>asOptional\<close> as in \<^verbatim>\<open>part_001\<close>: the same, but the function defines no property itself;
  how its result comes to carry the facet is left to the helpers, which are not among the
  sources. The facet check \<^verbatim>\<open>isOptional\<close> of that version is a parameter.
\<close>

definition asOptional2 :: "(store \<Rightarrow> ref \<Rightarrow> bool) \<Rightarrow> store \<Rightarrow> ref \<Rightarrow> ref \<times> store" where
  "asOptional2 isOpt s pred =
     (if isOpt s pred then (pred, s)
      else
        let (f, s1) = alloc s (\<lambda>x. orelse (Inr (strictEquals x PUndefined)) (callFn s pred x))
        in setPredicateFactoryMetadata s1 f
             \<lparr>meta_name = ''asOptional'', meta_args = [Fun pred]\<rparr>)"

text \<open>
  \<^verbatim>\<open>asRequired\<close> (the same text in both files): \<open>pred\<close> itself when it is not optional;
  otherwise \<^verbatim>\<open>const { args } = getPredicateFactoryMetadata(pred); return args[0]\<close>.
  Destructuring an absent metadata raises a TypeError; \<^verbatim>\<open>args[0]\<close> of an empty list is
  \<^verbatim>\<open>undefined\<close>.
\<close>

definition asRequired :: "store \<Rightarrow> ref \<Rightarrow> jsval result" where
  "asRequired s pred =
     (if \<not> isOptional s pred then Inr (Fun pred)
      else (case getPredicateFactoryMetadata s pred of
              None \<Rightarrow> Inl TypeError
            | Some m \<Rightarrow> Inr (index (meta_args m) 0)))"


subsection \<open>isOptionalOf of is.ts as a factory\<close>

text \<open>
  \<^verbatim>\<open>isOptionalOf\<close> has no guard: each call allocates the arrow function and defines
  \<^verbatim>\<open>optional\<close> on it. It attaches no metadata.
\<close>

definition isOptionalOf :: "store \<Rightarrow> ref \<Rightarrow> ref \<times> store" where
  "isOptionalOf s pred =
     (let (f, s1) = alloc s (isOptionalOf_fn (callFn s pred))
      in defineOptional s1 f)"

section \<open>Vocabulary of the statements\<close>


text \<open>A predicate accepts the outcome of a property read: the read returned, and the predicate
  returned \<^verbatim>\<open>true\<close> on what it read.\<close>

definition accepts :: "predicate \<Rightarrow> jsval result \<Rightarrow> bool" where
  "accepts pred r = (case r of Inl e \<Rightarrow> False | Inr v \<Rightarrow> pred v = Inr True)"

text \<open>A call returned (a boolean, for a predicate) and did not raise.\<close>

definition returned :: "'a result \<Rightarrow> bool" where
  "returned r = (case r of Inl e \<Rightarrow> False | Inr v \<Rightarrow> True)"



section \<open>Example values\<close>

text \<open>A store holding \<^verbatim>\<open>is.String\<close> at reference 0 and \<^verbatim>\<open>is.Number\<close> at reference 1.\<close>

definition leaf_store :: store where
  "leaf_store =
     [\<lparr>call = isString, optional = False, metadata = None\<rparr>,
      \<lparr>call = isNumber, optional = False, metadata = None\<rparr>]"

text \<open>The store after \<^verbatim>\<open>as.Optional(is.String)\<close>, whose result is reference 2.\<close>

definition opt_store :: store where
  "opt_store = snd (asOptional leaf_store 0)"

text \<open>The store after \<^verbatim>\<open>is.OptionalOf(is.String)\<close>, whose result is reference 2.\<close>

definition optOf_store :: store where
  "optOf_store = snd (isOptionalOf leaf_store 0)"

text \<open>The store after \<^verbatim>\<open>is.OptionalOf\<close> is applied to that result; the new result is reference 3.\<close>

definition optOf_store2 :: store where
  "optOf_store2 = snd (isOptionalOf optOf_store 2)"

text \<open>
  The properties of \<^verbatim>\<open>Object.prototype\<close>: eleven built-in methods, none enumerable, and the
  accessor \<^verbatim>\<open>__proto__\<close>, which returns the prototype of the object it is read from. The
  built-in methods are functions outside the stores used below.
\<close>

definition objectPrototypeMethods :: "(string \<times> bool \<times> jsval slot) list" where
  "objectPrototypeMethods =
     [(''constructor'', False, Value (Fun 100)),
      (''__defineGetter__'', False, Value (Fun 101)),
      (''__defineSetter__'', False, Value (Fun 102)),
      (''hasOwnProperty'', False, Value (Fun 103)),
      (''__lookupGetter__'', False, Value (Fun 104)),
      (''__lookupSetter__'', False, Value (Fun 105)),
      (''isPrototypeOf'', False, Value (Fun 106)),
      (''propertyIsEnumerable'', False, Value (Fun 107)),
      (''toString'', False, Value (Fun 108)),
      (''valueOf'', False, Value (Fun 109)),
      (''toLocaleString'', False, Value (Fun 110))]"

definition objectPrototype :: jsval where
  "objectPrototype =
     Obj [] (objectPrototypeMethods @ [(''__proto__'', False, Value (Prim PNull))]) []"

text \<open>What an object whose prototype is \<^verbatim>\<open>Object.prototype\<close> inherits.\<close>

definition literalRest :: "(string \<times> bool \<times> jsval slot) list" where
  "literalRest = objectPrototypeMethods @ [(''__proto__'', False, Value objectPrototype)]"

text \<open>The object literal \<^verbatim>\<open>{ k1: v1, ... }\<close>; \<open>objectLiteral []\<close> is \<^verbatim>\<open>{}\<close>.\<close>

definition objectLiteral :: "(string \<times> jsval) list \<Rightarrow> jsval" where
  "objectLiteral kvs = Obj (map (\<lambda>(k, v). (k, Value v)) kvs) literalRest [objectProto]"



text \<open>The number \<open>0\<close>, the string \<open>"a"\<close> and \<^verbatim>\<open>true\<close>, as values.\<close>

definition num0 :: jsval where
  "num0 = Prim (PNumber (Num 0))"

definition strA :: jsval where
  "strA = Prim (PString ''a'')"

definition boolT :: jsval where
  "boolT = Prim (PBoolean True)"

section \<open>Basic facts\<close>

lemma isArray_iff: "isArray x \<longleftrightarrow> (\<exists>xs. x = Arr xs) \<or> x = Proxy True"
  by (cases x) (auto simp: isArray_def)

lemma isRecord_iff:
  "isRecord x \<longleftrightarrow> (\<exists>own rest protos. x = Obj own rest protos) \<or> x = Proxy False"
  by (cases x) (auto simp: isRecord_def isNullish_def isArray_def typeof_object_def
      split: primitive.splits)

lemma isArray_simps [simp]:
  "isArray (Arr xs)" "\<not> isArray (Prim p)" "\<not> isArray (Obj own rest protos)"
  "\<not> isArray (Fun r)" "isArray (Proxy b) = b"
  by (simp_all add: isArray_def)

lemma isRecord_simps [simp]:
  "isRecord (Obj own rest protos)" "\<not> isRecord (Prim p)" "\<not> isRecord (Arr xs)"
  "\<not> isRecord (Fun r)" "isRecord (Proxy b) = (\<not> b)"
  by (simp_all add: isRecord_iff)

lemma isRecord_objectLiteral [simp]: "isRecord (objectLiteral kvs)"
  by (simp add: objectLiteral_def)

text \<open>Reads of an object literal: its own data, the inherited methods, \<^verbatim>\<open>undefined\<close>.\<close>

lemma map_of_literal_own:
  "map_of (map (\<lambda>(k, v). (k, Value v)) kvs) k = map_option Value (map_of kvs k)"
  by (induction kvs) auto

lemma getProp_objectLiteral_own:
  "map_of kvs k = Some v \<Longrightarrow>
     getProp (map (\<lambda>(k, v). (k, Value v)) kvs) literalRest k = Inr v"
  by (simp add: getProp_def map_of_literal_own readSlot_def)

lemma map_of_literalRest:
  "map_of literalRest ''constructor'' = Some (False, Value (Fun 100))"
  "map_of literalRest ''toString'' = Some (False, Value (Fun 108))"
  "map_of literalRest ''a'' = None"
  "map_of literalRest ''b'' = None"
  "map_of literalRest ''foo'' = None"
  "map_of literalRest ''self'' = None"
  by (simp_all add: literalRest_def objectPrototypeMethods_def)

lemma orelse_simps [simp]:
  "orelse (Inl e) b = Inl e"
  "orelse (Inr True) b = Inr True"
  "orelse (Inr False) b = b"
  by (simp_all add: orelse_def)

lemma andalso_simps [simp]:
  "andalso (Inl e) b = Inl e"
  "andalso (Inr True) b = b"
  "andalso (Inr False) b = Inr False"
  by (simp_all add: andalso_def)

lemma returned_simps [simp]: "returned (Inr v)" "\<not> returned (Inl e)"
  by (simp_all add: returned_def)


lemma orelse_idem: "orelse a (orelse a b) = orelse a b"
  by (cases a) (simp_all add: orelse_def)

section \<open>The optional modifier\<close>

lemma asOptional_fresh:
  "\<not> isOptional s pred \<Longrightarrow> asOptional s pred =
     (length s, s @ [\<lparr>call = (\<lambda>x. orelse (Inr (strictEquals x PUndefined)) (callFn s pred x)),
                      optional = True,
                      metadata = Some \<lparr>meta_name = ''asOptional'', meta_args = [Fun pred]\<rparr>\<rparr>])"
  by (simp add: asOptional_def alloc_def setPredicateFactoryMetadata_def
      defineOptional_def lookup_def Let_def)

lemma isOptional_asOptional: "isOptional (snd (asOptional s pred)) (fst (asOptional s pred))"
  by (cases "isOptional s pred")
     (simp_all add: asOptional_fresh, simp_all add: asOptional_def isOptional_def lookup_def)

lemma asOptional2_fresh:
  "\<not> isOpt s pred \<Longrightarrow> asOptional2 isOpt s pred =
     (length s, s @ [\<lparr>call = (\<lambda>x. orelse (Inr (strictEquals x PUndefined)) (callFn s pred x)),
                      optional = False,
                      metadata = Some \<lparr>meta_name = ''asOptional'', meta_args = [Fun pred]\<rparr>\<rparr>])"
  by (simp add: asOptional2_def alloc_def setPredicateFactoryMetadata_def lookup_def Let_def)

text \<open>
  With the flag check for its facet check, the \<^verbatim>\<open>asOptional\<close> of \<^verbatim>\<open>part_001\<close> would not
  recognise its own result, and \<^verbatim>\<open>asRequired\<close> would return that result unchanged, against
  the cases of the test file next to it. So the facet check of that version reads
  something its helpers record, and stays a parameter.
\<close>

lemma asOptional2_flag_check:
  "\<not> isOptional s pred \<Longrightarrow>
     \<not> isOptional (snd (asOptional2 isOptional s pred)) (fst (asOptional2 isOptional s pred))"
  by (simp add: asOptional2_fresh isOptional_def lookup_def)

lemma callFn_last: "callFn (s @ [f]) (length s) x = call f x"
  by (simp add: callFn_def lookup_def)

lemma callFn_append: "r < length s \<Longrightarrow> callFn (s @ t) r x = callFn s r x"
  by (simp add: callFn_def lookup_def nth_append)

lemma asOptional2_twice_call:
  assumes "asOptional2 isOpt s pred = (q1, t1)" and "asOptional2 isOpt t1 q1 = (q2, t2)"
  shows "callFn t2 q2 x = callFn t1 q1 x"
proof (cases "isOpt t1 q1")
  case True
  with assms(2) show ?thesis by (simp add: asOptional2_def)
next
  case False
  with assms(2) have "callFn t2 q2 x = orelse (Inr (strictEquals x PUndefined)) (callFn t1 q1 x)"
    by (auto simp: asOptional2_fresh callFn_last)
  moreover have "\<not> isOpt s pred"
    using False assms(1) by (auto simp: asOptional2_def split: if_splits)
  then have "callFn t1 q1 x = orelse (Inr (strictEquals x PUndefined)) (callFn s pred x)"
    using assms(1) by (auto simp: asOptional2_fresh callFn_last)
  ultimately show ?thesis by (simp add: orelse_idem)
qed

text \<open>
  C1. Applying \<^verbatim>\<open>asOptional\<close> to its own result returns that result: the same reference and
  the same store, so nothing is allocated and no metadata is attached, and the predicate
  behaves as after one application. Whenever the argument carries the optional facet the
  argument itself is returned and the store is unchanged. For the \<^verbatim>\<open>asOptional\<close> of
  \<^verbatim>\<open>part_001\<close>, whatever its facet check is, the second application behaves as the first on
  every input, and an argument the facet check recognises is returned itself.
\<close>

theorem asOptional_idempotent:
  assumes "asOptional s pred = (r1, s1)"
    and "asOptional2 isOpt s pred = (q1, t1)"
    and "asOptional2 isOpt t1 q1 = (q2, t2)"
  shows "asOptional s1 r1 = (r1, s1)
       \<and> callFn (snd (asOptional s1 r1)) (fst (asOptional s1 r1)) x = callFn s1 r1 x
       \<and> (isOptional s pred \<longrightarrow> r1 = pred \<and> s1 = s)
       \<and> callFn t2 q2 x = callFn t1 q1 x
       \<and> (isOpt s pred \<longrightarrow> q1 = pred \<and> t1 = s)
       \<and> (isOpt t1 q1 \<longrightarrow> q2 = q1 \<and> t2 = t1)"
proof -
  have opt: "isOptional s1 r1"
    using isOptional_asOptional [of s pred] assms(1) by simp
  then have same: "asOptional s1 r1 = (r1, s1)"
    by (simp add: asOptional_def)
  have arg: "isOptional s pred \<longrightarrow> r1 = pred \<and> s1 = s"
    using assms(1) by (auto simp: asOptional_def)
  have arg2: "isOpt s pred \<longrightarrow> q1 = pred \<and> t1 = s"
    using assms(2) by (auto simp: asOptional2_def)
  have arg3: "isOpt t1 q1 \<longrightarrow> q2 = q1 \<and> t2 = t1"
    using assms(3) by (auto simp: asOptional2_def)
  show ?thesis
    using same arg arg2 arg3 asOptional2_twice_call [OF assms(2) assms(3)] by simp
qed

theorem asOptional_idempotent_witness:
  "asOptional leaf_store 0 = (2, opt_store)
   \<and> isOptional opt_store 2
   \<and> asOptional opt_store 2 = (2, opt_store)"
proof -
  have a: "asOptional leaf_store 0 = (2, opt_store)"
    by (simp add: opt_store_def asOptional_fresh isOptional_def lookup_def leaf_store_def)
  have c: "isOptional opt_store 2"
    using isOptional_asOptional [of leaf_store 0] by (simp add: a)
  have b: "asOptional2 isOptional opt_store 2 = (2, opt_store)"
    using c by (simp add: asOptional2_def)
  have d: "asOptional opt_store 2 = (2, opt_store)"
    using c by (simp add: asOptional_def)
  show ?thesis
    using asOptional_idempotent [OF d b b] a c by simp
qed

text \<open>
  C2, as the code has it. When \<open>pred\<close> does not carry the optional facet,
  \<^verbatim>\<open>asRequired(asOptional(pred))\<close> is \<open>pred\<close> itself: the metadata recorded for the wrapper
  is \<^verbatim>\<open>{ name: "asOptional", args: [pred] }\<close> and \<^verbatim>\<open>asRequired\<close> returns its \<^verbatim>\<open>args[0]\<close>;
  the function object at \<open>pred\<close> is untouched, so it behaves as before on every input.
\<close>

theorem asRequired_asOptional_roundtrip:
  assumes "\<not> isOptional s pred" and "asOptional s pred = (r, s')"
  shows "asRequired s' r = Inr (Fun pred)
       \<and> getPredicateFactoryMetadata s' r
           = Some \<lparr>meta_name = ''asOptional'', meta_args = [Fun pred]\<rparr>
       \<and> (pred < length s \<longrightarrow> lookup s' pred = lookup s pred \<and> callFn s' pred x = callFn s pred x)"
  using assms
  by (auto simp: asOptional_fresh asRequired_def isOptional_def getPredicateFactoryMetadata_def
      lookup_def index_def callFn_def nth_append)

theorem asRequired_asOptional_roundtrip_witness:
  "\<not> isOptional leaf_store 0 \<and> asOptional leaf_store 0 = (2, opt_store)
   \<and> asRequired opt_store 2 = Inr (Fun 0)
   \<and> callFn opt_store 0 (Prim (PString ''a'')) = callFn leaf_store 0 (Prim (PString ''a''))"
proof -
  have h: "\<not> isOptional leaf_store 0"
    by (simp add: isOptional_def lookup_def leaf_store_def)
  have a: "asOptional leaf_store 0 = (2, opt_store)"
    by (simp add: opt_store_def asOptional_fresh isOptional_def lookup_def leaf_store_def)
  have l: "(0::nat) < length leaf_store" by (simp add: leaf_store_def)
  show ?thesis
    using asRequired_asOptional_roundtrip [OF h a, of "Prim (PString ''a'')"] h a l by simp
qed

text \<open>
  C2 as stated fails for a predicate that already carries the facet. Reference 2 of
  \<open>opt_store\<close> is \<^verbatim>\<open>as.Optional(is.String)\<close>. \<^verbatim>\<open>asOptional\<close> returns it unchanged, and
  \<^verbatim>\<open>asRequired\<close> then unwraps it to reference 0, \<^verbatim>\<open>is.String\<close>: another object, and one that
  rejects \<^verbatim>\<open>undefined\<close>, which reference 2 accepts.
\<close>

theorem asRequired_asOptional_counterexample:
  "isOptional opt_store 2
   \<and> asOptional opt_store 2 = (2, opt_store)
   \<and> asRequired (snd (asOptional opt_store 2)) (fst (asOptional opt_store 2)) = Inr (Fun 0)
   \<and> asRequired (snd (asOptional opt_store 2)) (fst (asOptional opt_store 2)) \<noteq> Inr (Fun 2)
   \<and> callFn opt_store 2 undefined_val = Inr True
   \<and> callFn opt_store 0 undefined_val = Inr False"
proof -
  have s: "opt_store = leaf_store @
      [\<lparr>call = (\<lambda>x. orelse (Inr (strictEquals x PUndefined)) (callFn leaf_store 0 x)),
        optional = True,
        metadata = Some \<lparr>meta_name = ''asOptional'', meta_args = [Fun 0]\<rparr>\<rparr>]"
    by (simp add: opt_store_def asOptional_fresh isOptional_def lookup_def leaf_store_def)
  have c: "isOptional opt_store 2"
    by (simp add: s isOptional_def lookup_def leaf_store_def)
  have d: "asOptional opt_store 2 = (2, opt_store)"
    using c by (simp add: asOptional_def)
  have r: "asRequired opt_store 2 = Inr (Fun 0)"
    using c by (simp add: asRequired_def getPredicateFactoryMetadata_def s lookup_def
        leaf_store_def index_def)
  have u2: "callFn opt_store 2 undefined_val = Inr True"
    by (simp add: s callFn_def lookup_def leaf_store_def strictEquals_def)
  have u0: "callFn opt_store 0 undefined_val = Inr False"
    by (simp add: s callFn_def lookup_def leaf_store_def isString_def)
  show ?thesis using c d r u2 u0 by simp
qed

subsection \<open>The cases of the test file\<close>

text \<open>
  The test file in \<^verbatim>\<open>part_001\<close> applies \<^verbatim>\<open>is.ObjectOf\<close> and \<^verbatim>\<open>is.TupleOf\<close> to \<^verbatim>\<open>as.Optional(is.String)\<close> and to
  \<^verbatim>\<open>as.Required(as.Optional(is.String))\<close>. In \<open>opt_store\<close> the former is reference 2 and the
  latter is reference 0. The model gives the expected results.
\<close>

lemma opt_store_eq:
  "opt_store = leaf_store @
      [\<lparr>call = (\<lambda>x. orelse (Inr (strictEquals x PUndefined)) (callFn leaf_store 0 x)),
        optional = True,
        metadata = Some \<lparr>meta_name = ''asOptional'', meta_args = [Fun 0]\<rparr>\<rparr>]"
  by (simp add: opt_store_def asOptional_fresh isOptional_def lookup_def leaf_store_def)

lemma callFn_opt_store:
  "callFn opt_store 2 x = orelse (Inr (strictEquals x PUndefined)) (isString x)"
  "callFn opt_store 0 x = isString x"
  by (simp_all add: opt_store_eq callFn_def lookup_def leaf_store_def)

lemma as_test_Optional:
  "isObjectOf [(''foo'', callFn opt_store 2)] False (objectLiteral []) = Inr True"
  "isObjectOf [(''foo'', callFn opt_store 2)] False (objectLiteral [(''foo'', undefined_val)]) = Inr True"
  "isObjectOf [(''foo'', callFn opt_store 2)] False (objectLiteral [(''foo'', strA)]) = Inr True"
  "isObjectOf [(''foo'', callFn opt_store 2)] False (objectLiteral [(''foo'', num0)]) = Inr False"
  "isTupleOf [callFn opt_store 2] None (Arr []) = Inr False"
  "isTupleOf [callFn opt_store 2] None (Arr [undefined_val]) = Inr True"
  "isTupleOf [callFn opt_store 2] None (Arr [strA]) = Inr True"
  "isTupleOf [callFn opt_store 2] None (Arr [num0]) = Inr False"
  by (simp_all add: isObjectOf_def isObjectOfLoose_def objectLiteral_def getProp_def readSlot_def
      map_of_literalRest isTupleOf_def index_def callFn_opt_store strictEquals_def isString_def
      strA_def num0_def)

lemma as_test_Required_unwrap: "asRequired opt_store 2 = Inr (Fun 0)"
  by (simp add: asRequired_def isOptional_def getPredicateFactoryMetadata_def lookup_def
      opt_store_eq leaf_store_def index_def)

lemma as_test_Required:
  "isObjectOf [(''foo'', callFn opt_store 0)] False (objectLiteral []) = Inr False"
  "isObjectOf [(''foo'', callFn opt_store 0)] False (objectLiteral [(''foo'', undefined_val)]) = Inr False"
  "isObjectOf [(''foo'', callFn opt_store 0)] False (objectLiteral [(''foo'', strA)]) = Inr True"
  "isObjectOf [(''foo'', callFn opt_store 0)] False (objectLiteral [(''foo'', num0)]) = Inr False"
  "isTupleOf [callFn opt_store 0] None (Arr []) = Inr False"
  "isTupleOf [callFn opt_store 0] None (Arr [undefined_val]) = Inr False"
  "isTupleOf [callFn opt_store 0] None (Arr [strA]) = Inr True"
  "isTupleOf [callFn opt_store 0] None (Arr [num0]) = Inr False"
  by (simp_all add: isObjectOf_def isObjectOfLoose_def objectLiteral_def getProp_def readSlot_def
      map_of_literalRest isTupleOf_def index_def callFn_opt_store isString_def strA_def num0_def)

text \<open>
  C5. For a predicate that does not carry the optional facet, \<^verbatim>\<open>asRequired\<close> returns the
  predicate itself, the same reference.
\<close>

theorem asRequired_not_optional:
  "\<not> isOptional s pred \<Longrightarrow> asRequired s pred = Inr (Fun pred)"
  by (simp add: asRequired_def)

theorem asRequired_not_optional_witness:
  "\<not> isOptional leaf_store 0 \<and> asRequired leaf_store 0 = Inr (Fun 0)"
proof -
  have h: "\<not> isOptional leaf_store 0"
    by (simp add: isOptional_def lookup_def leaf_store_def)
  show ?thesis using h asRequired_not_optional [OF h] by simp
qed

section \<open>isOptionalOf as a factory\<close>

lemma isOptionalOf_eq:
  "isOptionalOf s pred =
     (length s, s @ [\<lparr>call = isOptionalOf_fn (callFn s pred), optional = True, metadata = None\<rparr>])"
  by (simp add: isOptionalOf_def alloc_def defineOptional_def lookup_def)

lemma isOptionalOf_fn_idem: "isOptionalOf_fn (isOptionalOf_fn p) x = isOptionalOf_fn p x"
  by (simp add: isOptionalOf_fn_def orelse_idem)

lemma callFn_last_fn: "callFn (s @ [f]) (length s) = call f"
  by (rule ext) (simp add: callFn_last)

text \<open>
  C10. \<^verbatim>\<open>isOptionalOf\<close> always allocates: its result is the next free reference, so it is
  never its argument, also when the argument carries the optional facet, as a result of
  \<^verbatim>\<open>isOptionalOf\<close> does. The wrapper of a wrapper still behaves as the wrapper on every input.
\<close>

theorem isOptionalOf_no_collapse:
  assumes "isOptionalOf s pred = (r1, s1)" and "isOptionalOf s1 r1 = (r2, s2)"
  shows "isOptional s1 r1 \<and> r2 \<noteq> r1 \<and> r2 = length s1 \<and> length s2 = Suc (length s1)
       \<and> lookup s2 r1 = lookup s1 r1
       \<and> callFn s2 r2 x = callFn s1 r1 x
       \<and> callFn s1 r1 x = isOptionalOf_fn (callFn s pred) x
       \<and> (isOptional s pred \<longrightarrow> r1 \<noteq> pred \<and> length s1 = Suc (length s))"
proof -
  have r1: "r1 = length s"
    and s1: "s1 = s @ [\<lparr>call = isOptionalOf_fn (callFn s pred), optional = True, metadata = None\<rparr>]"
    using assms(1) by (simp_all add: isOptionalOf_eq)
  have r2: "r2 = length s1"
    and s2: "s2 = s1 @ [\<lparr>call = isOptionalOf_fn (callFn s1 r1), optional = True, metadata = None\<rparr>]"
    using assms(2) by (simp_all add: isOptionalOf_eq)
  have c1: "callFn s1 r1 = isOptionalOf_fn (callFn s pred)"
    by (simp add: r1 s1 callFn_last_fn)
  have c2: "callFn s2 r2 x = isOptionalOf_fn (callFn s1 r1) x"
    by (simp add: r2 s2 callFn_last)
  have "isOptional s1 r1"
    by (simp add: r1 s1 isOptional_def lookup_def)
  moreover have "r2 \<noteq> r1" "length s2 = Suc (length s1)"
    by (simp_all add: r1 r2 s1 s2)
  moreover have "lookup s2 r1 = lookup s1 r1"
    by (simp add: r1 s1 s2 lookup_def nth_append)
  moreover have "isOptional s pred \<longrightarrow> r1 \<noteq> pred \<and> length s1 = Suc (length s)"
    by (auto simp: r1 s1 isOptional_def lookup_def split: if_splits)
  ultimately show ?thesis
    using c1 c2 r2 by (simp add: isOptionalOf_fn_idem)
qed

theorem isOptionalOf_no_collapse_witness:
  "isOptional optOf_store 2
   \<and> isOptionalOf optOf_store 2 = (3, optOf_store2)
   \<and> isOptionalOf optOf_store2 3 = (4, snd (isOptionalOf optOf_store2 3))
   \<and> callFn optOf_store2 3 (Prim (PString ''a'')) = Inr True
   \<and> callFn optOf_store 2 (Prim (PString ''a'')) = Inr True"
proof -
  have o: "isOptional optOf_store 2"
    by (simp add: optOf_store_def isOptionalOf_eq leaf_store_def isOptional_def lookup_def)
  have a: "isOptionalOf optOf_store 2 = (3, optOf_store2)"
    by (simp add: optOf_store2_def optOf_store_def isOptionalOf_eq leaf_store_def)
  have b: "isOptionalOf optOf_store2 3 = (4, snd (isOptionalOf optOf_store2 3))"
    by (simp add: isOptionalOf_eq optOf_store2_def optOf_store_def leaf_store_def)
  have c: "callFn optOf_store 2 (Prim (PString ''a'')) = Inr True"
    by (simp add: optOf_store_def isOptionalOf_eq leaf_store_def callFn_def lookup_def
        isOptionalOf_fn_def isUndefined_def isString_def)
  show ?thesis
    using isOptionalOf_no_collapse [OF a b, of "Prim (PString ''a'')"] o a b c
    by (simp add: isOptionalOf_fn_def isUndefined_def)
qed

section \<open>Unions and intersections\<close>

lemma every_True_iff:
  "every f xs i = Inr True \<longleftrightarrow> (\<forall>j<length xs. f (xs ! j) (i + j) = Inr True)"
proof (induction xs arbitrary: i)
  case Nil
  show ?case by simp
next
  case (Cons a as)
  show ?case
    by (auto simp: Cons.IH less_Suc_eq_0_disj split: sum.splits)
qed

lemma every_False_ex:
  "every f xs i = Inr False \<Longrightarrow> \<exists>j<length xs. f (xs ! j) (i + j) = Inr False"
proof (induction xs arbitrary: i)
  case Nil
  then show ?case by simp
next
  case (Cons a as)
  show ?case
  proof (cases "f a i")
    case (Inl e)
    with Cons.prems show ?thesis by simp
  next
    case (Inr v)
    show ?thesis
    proof (cases v)
      case True
      with Inr Cons.prems have "every f as (Suc i) = Inr False" by simp
      from Cons.IH [OF this] obtain j where "j < length as" "f (as ! j) (Suc i + j) = Inr False"
        by blast
      then have "Suc j < length (a # as) \<and> f ((a # as) ! Suc j) (i + Suc j) = Inr False" by simp
      then show ?thesis by blast
    next
      case False
      with Inr have "0 < length (a # as) \<and> f ((a # as) ! 0) (i + 0) = Inr False" by simp
      then show ?thesis by blast
    qed
  qed
qed













section \<open>Literals\<close>

lemma strictEquals_iff: "strictEquals x l \<longleftrightarrow> x = Prim l \<and> l \<noteq> PNumber NaN"
  by (cases x) (auto simp: strictEquals_def split: primitive.splits number.splits)

lemma sameValueZero_iff: "sameValueZero x l \<longleftrightarrow> x = Prim l"
  by (cases x) (auto simp: sameValueZero_def)

lemma includes_arr_iff: "includes_arr ls x \<longleftrightarrow> (\<exists>l\<in>set ls. sameValueZero x l)"
  by (simp add: includes_arr_def list_ex_iff)

text \<open>
  C6, as the code has it. \<^verbatim>\<open>isLiteralOf(literal)(x)\<close> is \<^verbatim>\<open>x === literal\<close>: \<open>x\<close> is the
  primitive \<open>literal\<close>, and \<open>literal\<close> is not NaN. \<^verbatim>\<open>isLiteralOneOf(literals)(x)\<close> is
  \<^verbatim>\<open>literals.includes(x)\<close>, which compares with SameValueZero: \<open>x\<close> is strictly identical to
  a member, or \<open>x\<close> is NaN and NaN is a member. For every \<open>x\<close> other than NaN the two
  comparisons agree.
\<close>

theorem isLiteralOf_isLiteralOneOf_spec:
  "isLiteralOf literal x = Inr (strictEquals x literal)
   \<and> (strictEquals x literal \<longleftrightarrow> x = Prim literal \<and> literal \<noteq> PNumber NaN)
   \<and> isLiteralOneOf literals x = Inr (\<exists>l\<in>set literals. sameValueZero x l)
   \<and> (sameValueZero x literal \<longleftrightarrow>
        strictEquals x literal \<or> (x = Prim (PNumber NaN) \<and> literal = PNumber NaN))
   \<and> (x \<noteq> Prim (PNumber NaN) \<longrightarrow>
        isLiteralOneOf literals x = Inr (\<exists>l\<in>set literals. strictEquals x l))"
  by (auto simp: isLiteralOf_def isLiteralOneOf_def includes_arr_iff strictEquals_iff sameValueZero_iff)

theorem isLiteralOf_isLiteralOneOf_spec_witness:
  "strA \<noteq> Prim (PNumber NaN)
   \<and> isLiteralOf (PString ''a'') strA = Inr True
   \<and> isLiteralOneOf [PNumber (Num 1), PString ''a''] strA = Inr True
   \<and> isLiteralOneOf [PNumber (Num 1), PString ''b''] strA = Inr False"
proof -
  have h: "strA \<noteq> Prim (PNumber NaN)" by (simp add: strA_def)
  have f: "isLiteralOneOf [PNumber (Num 1), PString ''b''] strA = Inr False"
    by (simp add: isLiteralOneOf_def includes_arr_def sameValueZero_def strA_def)
  show ?thesis
    using isLiteralOf_isLiteralOneOf_spec [of "PString ''a''" strA "[PNumber (Num 1), PString ''a'']"] h f
    by (simp add: strA_def strictEquals_def)
qed

text \<open>
  C6 as stated fails at NaN: \<^verbatim>\<open>isLiteralOneOf([NaN])(NaN)\<close> is \<^verbatim>\<open>true\<close>, and NaN is strictly
  identical to nothing, as \<^verbatim>\<open>isLiteralOf(NaN)(NaN)\<close> shows.
\<close>

theorem isLiteralOneOf_counterexample:
  "isLiteralOneOf [PNumber NaN] (Prim (PNumber NaN)) = Inr True
   \<and> \<not> strictEquals (Prim (PNumber NaN)) (PNumber NaN)
   \<and> isLiteralOf (PNumber NaN) (Prim (PNumber NaN)) = Inr False"
  by (simp add: isLiteralOneOf_def includes_arr_def sameValueZero_def strictEquals_def isLiteralOf_def)

section \<open>Tuples\<close>

text \<open>
  C4. Without a rest predicate, \<^verbatim>\<open>isTupleOf(preds)(x)\<close> returns \<^verbatim>\<open>true\<close> exactly for an array
  of \<open>length preds\<close> elements whose \<open>i\<close>-th element the \<open>i\<close>-th predicate accepts; an array
  of another length is rejected whatever the predicates would do. With a rest predicate it
  returns \<^verbatim>\<open>true\<close> exactly for an array of at least \<open>length preds\<close> elements whose first
  elements the predicates accept position by position and whose remaining elements, as one
  array, the rest predicate accepts; a shorter array is rejected.
\<close>

theorem isTupleOf_spec:
  "(isTupleOf preds None x = Inr True \<longleftrightarrow>
      (\<exists>xs. x = Arr xs \<and> length xs = length preds
            \<and> (\<forall>i<length preds. (preds ! i) (xs ! i) = Inr True)))
   \<and> (length xs \<noteq> length preds \<longrightarrow> isTupleOf preds None (Arr xs) = Inr False)
   \<and> (isTupleOf preds (Some restPred) x = Inr True \<longleftrightarrow>
      (\<exists>xs. x = Arr xs \<and> length preds \<le> length xs
            \<and> (\<forall>i<length preds. (preds ! i) (xs ! i) = Inr True)
            \<and> restPred (Arr (drop (length preds) xs)) = Inr True))
   \<and> (length xs < length preds \<longrightarrow> isTupleOf preds (Some restPred) (Arr xs) = Inr False)"
proof -
  have 1: "isTupleOf preds None x = Inr True \<longleftrightarrow>
      (\<exists>xs. x = Arr xs \<and> length xs = length preds
            \<and> (\<forall>i<length preds. (preds ! i) (xs ! i) = Inr True))"
    by (cases x) (auto simp: isTupleOf_def every_True_iff index_def)
  have 2: "isTupleOf preds (Some restPred) x = Inr True \<longleftrightarrow>
      (\<exists>xs. x = Arr xs \<and> length preds \<le> length xs
            \<and> (\<forall>i<length preds. (preds ! i) (xs ! i) = Inr True)
            \<and> restPred (Arr (drop (length preds) xs)) = Inr True)"
  proof (cases x)
    case (Arr ys)
    have "andalso a b = Inr True \<longleftrightarrow> a = Inr True \<and> b = Inr True" for a b
      by (cases a) (auto simp: andalso_def)
    then show ?thesis
      using Arr by (auto simp: isTupleOf_def every_True_iff index_def Let_def)
  qed (simp_all add: isTupleOf_def)
  show ?thesis using 1 2 by (simp add: isTupleOf_def)
qed

theorem isTupleOf_spec_witness:
  "isTupleOf [isNumber, isString] None (Arr [num0, strA]) = Inr True
   \<and> isTupleOf [isNumber, isString] None (Arr [num0]) = Inr False
   \<and> isTupleOf [isNumber, isString] (Some (isArrayOf isBoolean)) (Arr [num0, strA]) = Inr True
   \<and> isTupleOf [isNumber, isString] (Some (isArrayOf isBoolean)) (Arr [num0, strA, boolT]) = Inr True
   \<and> isTupleOf [isNumber, isString] (Some (isArrayOf isBoolean)) (Arr [num0]) = Inr False"
proof -
  have e: "isTupleOf [isNumber, isString] (Some (isArrayOf isBoolean)) (Arr [num0, strA, boolT]) = Inr True"
    by (simp add: isTupleOf_def isArrayOf_def index_def isNumber_def isString_def isBoolean_def
        num0_def strA_def boolT_def)
  have l: "length [num0] \<noteq> length [isNumber, isString]" "length [num0] < length [isNumber, isString]"
    by simp_all
  show ?thesis
    using isTupleOf_spec [of "[isNumber, isString]" "Arr [num0, strA]" "[num0]" "isArrayOf isBoolean"] e l
    by (simp add: isNumber_def isString_def isArrayOf_def num0_def strA_def less_Suc_eq_0_disj)
qed

text \<open>The scenarios of the spec for tuples.\<close>

lemma tuple_scenarios:
  "isTupleOf [isNumber, isString, isBoolean] None (Arr [num0, strA, boolT]) = Inr True"
  "isTupleOf [isNumber, isString, isBoolean] None (Arr [num0, strA]) = Inr False"
  "isUniformTupleOf 3 (Some isNumber) (Arr [num0, num0, num0]) = Inr True"
  "isUniformTupleOf 3 (Some isNumber) (Arr [num0, num0, strA]) = Inr False"
  by (simp_all add: isTupleOf_def isUniformTupleOf_def index_def isNumber_def isString_def
      isBoolean_def num0_def strA_def boolT_def numeral_3_eq_3)

section \<open>Objects in strict mode\<close>

lemma accepts_raised [simp]: "\<not> accepts p (Inl e)"
  by (simp add: accepts_def)

lemma loose_loop_True_iff:
  "isObjectOfLoose_loop d read = Inr True \<longleftrightarrow> (\<forall>(k, p)\<in>set d. accepts p (read k))"
  by (induction d read rule: isObjectOfLoose_loop.induct)
     (auto simp: accepts_def split: sum.splits)

lemma isObjectOfLoose_Obj_iff:
  "isObjectOfLoose d (Obj own rest protos) = Inr True \<longleftrightarrow>
     (\<forall>(k, p)\<in>set d. accepts p (getProp own rest k))"
  by (simp add: isObjectOfLoose_def loose_loop_True_iff)

lemma isObjectOfStrict_Obj_unfold:
  "isObjectOfStrict d (Obj own rest protos) = Inr True \<longleftrightarrow>
     isObjectOfLoose d (Obj own rest protos) = Inr True
     \<and> length own \<le> card (fst ` set d) \<and> (\<forall>k\<in>fst ` set own. k \<in> fst ` set d)"
proof (cases "isObjectOfLoose d (Obj own rest protos)")
  case (Inl e)
  then show ?thesis by (simp add: isObjectOfStrict_def)
next
  case (Inr b)
  then show ?thesis
    by (cases b) (simp_all add: isObjectOfStrict_def list_all_iff length_remdups_card_conv)
qed

lemma isObjectOfStrict_Obj_iff:
  "isObjectOfStrict d (Obj own rest protos) = Inr True \<longleftrightarrow>
     (\<forall>(k, p)\<in>set d. accepts p (getProp own rest k))
     \<and> length own \<le> card (fst ` set d) \<and> (\<forall>k\<in>fst ` set own. k \<in> fst ` set d)"
  unfolding isObjectOfStrict_Obj_unfold isObjectOfLoose_Obj_iff by (rule refl)

lemma isObjectOfStrict_not_Obj:
  assumes "\<And>own rest protos. x \<noteq> Obj own rest protos"
  shows "isObjectOfStrict d x \<noteq> Inr True"
proof (cases "isObjectOfLoose d x")
  case (Inl e)
  then show ?thesis by (simp add: isObjectOfStrict_def)
next
  case (Inr b)
  with assms show ?thesis
    by (cases x; cases b) (simp_all add: isObjectOfStrict_def)
qed

lemma isObjectOfStrict_True_iff:
  "isObjectOfStrict d x = Inr True \<longleftrightarrow>
     (\<exists>own rest protos. x = Obj own rest protos
           \<and> (\<forall>(k, p)\<in>set d. accepts p (getProp own rest k))
           \<and> length own \<le> card (fst ` set d) \<and> (\<forall>k\<in>fst ` set own. k \<in> fst ` set d))"
proof (cases "\<exists>own rest protos. x = Obj own rest protos")
  case True
  then show ?thesis by (auto simp: isObjectOfStrict_Obj_iff)
next
  case False
  then have "isObjectOfStrict d x \<noteq> Inr True"
    by (intro isObjectOfStrict_not_Obj) blast
  with False show ?thesis by blast
qed

lemma getProp_own: "map_of own k = Some s \<Longrightarrow> getProp own rest k = readSlot s"
  by (simp add: getProp_def)

lemma getProp_rest:
  "map_of own k = None \<Longrightarrow> map_of rest k = Some (e, s) \<Longrightarrow> getProp own rest k = readSlot s"
  by (simp add: getProp_def)

lemma getProp_missing:
  "map_of own k = None \<Longrightarrow> map_of rest k = None \<Longrightarrow> getProp own rest k = Inr undefined_val"
  by (simp add: getProp_def)

lemma strict_count: "distinct (map fst own) \<Longrightarrow> fst ` set own \<subseteq> fst ` set d \<Longrightarrow>
    length own \<le> card (fst ` set d)"
proof -
  assume dist: "distinct (map fst own)" and sub: "fst ` set own \<subseteq> fst ` set (d :: ('a \<times> 'c) list)"
  have "length own = card (fst ` set own)"
    using distinct_card [OF dist] by simp
  also have "\<dots> \<le> card (fst ` set d)"
    using sub by (intro card_mono) auto
  finally show ?thesis .
qed

text \<open>The object literals used below.\<close>

lemma strict_examples:
  "isObjectOf [(''a'', isNumber)] True (objectLiteral [(''a'', num0)]) = Inr True"
  "isObjectOf [(''a'', isNumber)] True (objectLiteral [(''a'', num0), (''b'', num0)]) = Inr False"
  "isObjectOf [(''a'', isNumber)] True (Arr [num0]) = Inr False"
  "isObjectOf [(''a'', isOptionalOf_fn isString)] True (objectLiteral []) = Inr True"
  "isObjectOf [(''toString'', isFunction)] True (objectLiteral []) = Inr True"
  "isObjectOf [(''constructor'', isOptionalOf_fn isString)] True (objectLiteral []) = Inr False"
  by (simp_all add: isObjectOf_def isObjectOfStrict_def isObjectOfLoose_def objectLiteral_def
      getProp_def readSlot_def map_of_literalRest isNumber_def num0_def isOptionalOf_fn_def
      isUndefined_def isString_def isFunction_def instanceof_def)

text \<open>
  C3, as the code has it. \<^verbatim>\<open>isObjectOf(predObj, { strict: true })(x)\<close> returns \<^verbatim>\<open>true\<close> exactly
  when \<open>x\<close> is an object (\<^verbatim>\<open>isRecord\<close>: not an array, not nullish), every predicate of the
  descriptor accepts what \<^verbatim>\<open>x[k]\<close> reads at its key, every key of \<open>x\<close> is a key of the
  descriptor, and \<open>x\<close> has no more keys than the descriptor. The read \<^verbatim>\<open>x[k]\<close> follows the
  prototype chain: it gives the own property, else the inherited one, and \<^verbatim>\<open>undefined\<close> only
  when neither \<open>x\<close> nor its chain has the key. A value with a key outside the descriptor is
  never accepted, and is rejected with \<^verbatim>\<open>false\<close> whenever the call returns; a value whose
  keys are exactly the descriptor's, with accepted values, is accepted.
\<close>

theorem isObjectOf_strict_spec:
  "(isObjectOf d True x = Inr True \<longleftrightarrow>
      (\<exists>ps qs cs. x = Obj ps qs cs
          \<and> (\<forall>(k, p)\<in>set d. accepts p (getProp ps qs k))
          \<and> (\<forall>k\<in>fst ` set ps. k \<in> fst ` set d)
          \<and> length ps \<le> card (fst ` set d)))
   \<and> (isObjectOf d True x = Inr True \<longrightarrow> isRecord x)
   \<and> (isRecord x \<longrightarrow> \<not> isArray x \<and> \<not> isNullish x)
   \<and> (map_of own k = Some s \<longrightarrow> getProp own rest k = readSlot s)
   \<and> (map_of own k = None \<and> map_of rest k = Some (e, s) \<longrightarrow> getProp own rest k = readSlot s)
   \<and> (map_of own k = None \<and> map_of rest k = None \<longrightarrow> getProp own rest k = Inr undefined_val)
   \<and> (k \<in> fst ` set own \<and> k \<notin> fst ` set d \<longrightarrow>
        isObjectOf d True (Obj own rest protos) \<noteq> Inr True
        \<and> (returned (isObjectOf d True (Obj own rest protos)) \<longrightarrow>
             isObjectOf d True (Obj own rest protos) = Inr False))
   \<and> (distinct (map fst own) \<and> fst ` set own = fst ` set d
        \<and> (\<forall>(k, p)\<in>set d. accepts p (getProp own rest k))
      \<longrightarrow> isObjectOf d True (Obj own rest protos) = Inr True)"
proof -
  have 1: "isObjectOf d True x = Inr True \<longleftrightarrow>
      (\<exists>ps qs cs. x = Obj ps qs cs
          \<and> (\<forall>(k, p)\<in>set d. accepts p (getProp ps qs k))
          \<and> (\<forall>k\<in>fst ` set ps. k \<in> fst ` set d)
          \<and> length ps \<le> card (fst ` set d))" for x
    by (auto simp: isObjectOf_def isObjectOfStrict_True_iff)
  have 2: "isObjectOf d True x = Inr True \<longrightarrow> isRecord x"
    unfolding 1 by auto
  have 3: "isRecord x \<longrightarrow> \<not> isArray x \<and> \<not> isNullish x"
    by (simp add: isRecord_def)
  have 4: "k \<in> fst ` set own \<and> k \<notin> fst ` set d \<longrightarrow>
      isObjectOf d True (Obj own rest protos) \<noteq> Inr True"
    unfolding 1 by auto
  have 5: "isObjectOf d True (Obj own rest protos) \<noteq> Inr True \<longrightarrow>
      returned (isObjectOf d True (Obj own rest protos)) \<longrightarrow>
      isObjectOf d True (Obj own rest protos) = Inr False"
    by (cases "isObjectOf d True (Obj own rest protos)") auto
  have 6: "distinct (map fst own) \<and> fst ` set own = fst ` set d
        \<and> (\<forall>(k, p)\<in>set d. accepts p (getProp own rest k))
      \<longrightarrow> isObjectOf d True (Obj own rest protos) = Inr True"
  proof (intro impI, elim conjE)
    assume dist: "distinct (map fst own)" and eq: "fst ` set own = fst ` set d"
      and acc: "\<forall>(k, p)\<in>set d. accepts p (getProp own rest k)"
    have len: "length own \<le> card (fst ` set d)"
      using strict_count [OF dist, of d] eq by simp
    have sub: "\<forall>k\<in>fst ` set own. k \<in> fst ` set d"
      using eq by blast
    show "isObjectOf d True (Obj own rest protos) = Inr True"
      unfolding 1 using len sub acc by blast
  qed
  have 7: "map_of own k = Some s \<longrightarrow> getProp own rest k = readSlot s"
    "map_of own k = None \<and> map_of rest k = Some (e, s) \<longrightarrow> getProp own rest k = readSlot s"
    "map_of own k = None \<and> map_of rest k = None \<longrightarrow> getProp own rest k = Inr undefined_val"
    by (simp_all add: getProp_def)
  show ?thesis
    using 1 [of x] 2 3 4 5 6 7 by blast
qed

theorem isObjectOf_strict_spec_witness:
  "isObjectOf [(''a'', isNumber)] True (objectLiteral [(''a'', num0)]) = Inr True
   \<and> isObjectOf [(''a'', isNumber)] True (objectLiteral [(''a'', num0), (''b'', num0)]) = Inr False
   \<and> isObjectOf [(''a'', isNumber)] True (Arr [num0]) = Inr False
   \<and> getProp [(''a'', Value num0)] literalRest ''a'' = Inr num0
   \<and> getProp [(''a'', Value num0)] literalRest ''toString'' = Inr (Fun 108)
   \<and> getProp [(''a'', Value num0)] literalRest ''b'' = Inr undefined_val"
proof -
  have acc: "\<forall>(k, p)\<in>set [(''a'', isNumber)]. accepts p (getProp [(''a'', Value num0)] literalRest k)"
    by (simp add: accepts_def getProp_def readSlot_def isNumber_def num0_def)
  have r: "returned (isObjectOf [(''a'', isNumber)] True
             (Obj [(''a'', Value num0), (''b'', Value num0)] literalRest [objectProto]))"
    using strict_examples(2) by (simp add: objectLiteral_def)
  have m: "map_of [(''a'', Value num0)] ''a'' = Some (Value num0)"
    "map_of [(''a'', Value num0)] ''toString'' = None"
    "map_of [(''a'', Value num0)] ''b'' = None"
    by simp_all
  show ?thesis
    using isObjectOf_strict_spec [of "[(''a'', isNumber)]" "objectLiteral [(''a'', num0)]"
        "[(''a'', Value num0)]" "''a''" "Value num0" literalRest False "[objectProto]"]
      isObjectOf_strict_spec [of "[(''a'', isNumber)]" "Arr [num0]"
        "[(''a'', Value num0)]" "''toString''" "Value (Fun 108)" literalRest False "[objectProto]"]
      isObjectOf_strict_spec [of "[(''a'', isNumber)]" "Arr [num0]"
        "[(''a'', Value num0), (''b'', Value num0)]" "''b''" "Value num0" literalRest False
        "[objectProto]"]
      isObjectOf_strict_spec [of "[(''a'', isNumber)]" "Arr [num0]"
        "[(''a'', Value num0)]" "''b''" "Value num0" literalRest False "[objectProto]"]
      acc r m map_of_literalRest strict_examples(3)
    by (simp add: objectLiteral_def readSlot_def)
qed

text \<open>
  C3 as stated fails for a key that the value does not have but inherits. \<^verbatim>\<open>toString\<close> is
  missing from the keys of \<^verbatim>\<open>{}\<close> and \<^verbatim>\<open>isFunction\<close> rejects \<^verbatim>\<open>undefined\<close>, yet
  \<^verbatim>\<open>isObjectOf({ toString: isFunction }, { strict: true })({})\<close> is \<^verbatim>\<open>true\<close>: the predicate is
  passed the method inherited from \<^verbatim>\<open>Object.prototype\<close>.
\<close>

theorem isObjectOf_strict_counterexample:
  "objectLiteral [] = Obj [] literalRest [objectProto]
   \<and> isFunction undefined_val = Inr False
   \<and> getProp [] literalRest ''toString'' = Inr (Fun 108)
   \<and> isFunction (Fun 108) = Inr True
   \<and> isObjectOf [(''toString'', isFunction)] True (objectLiteral []) = Inr True"
proof (intro conjI)
  show "objectLiteral [] = Obj [] literalRest [objectProto]"
    by (simp add: objectLiteral_def)
  show "isObjectOf [(''toString'', isFunction)] True (objectLiteral []) = Inr True"
    by (rule strict_examples)
qed (simp_all add: isFunction_def instanceof_def getProp_def readSlot_def map_of_literalRest)

text \<open>
  C9, as the code has it. Strict mode asks that the keys of the value be keys of the
  descriptor and be no more than those, not that every key of the descriptor be present:
  for a value with distinct keys the count follows from the inclusion, and a value whose
  keys are a proper subset of the descriptor's is accepted when every predicate of the
  descriptor accepts what \<^verbatim>\<open>x[k]\<close> reads at its key. For a key left out that read is
  \<^verbatim>\<open>undefined\<close> when the prototype chain has no such property, and the inherited property
  otherwise. An instance is \<^verbatim>\<open>isObjectOf({ a: isOptionalOf(isString) }, { strict: true })({})\<close>.
\<close>

theorem isObjectOf_strict_subset:
  "(isObjectOf d True (Obj own rest protos) = Inr True \<longleftrightarrow>
      (\<forall>(k, p)\<in>set d. accepts p (getProp own rest k))
      \<and> fst ` set own \<subseteq> fst ` set d
      \<and> length own \<le> card (fst ` set d))
   \<and> (distinct (map fst own) \<and> fst ` set own \<subseteq> fst ` set d \<longrightarrow>
        length own \<le> card (fst ` set d))
   \<and> (distinct (map fst own) \<and> fst ` set own \<subset> fst ` set d
        \<and> (\<forall>(k, p)\<in>set d. accepts p (getProp own rest k))
      \<longrightarrow> isObjectOf d True (Obj own rest protos) = Inr True)
   \<and> (map_of own k = None \<and> map_of rest k = None \<longrightarrow> getProp own rest k = Inr undefined_val)
   \<and> (map_of own k = None \<and> map_of rest k = Some (e, s) \<longrightarrow> getProp own rest k = readSlot s)"
proof -
  have 1: "isObjectOf d True (Obj own rest protos) = Inr True \<longleftrightarrow>
      (\<forall>(k, p)\<in>set d. accepts p (getProp own rest k))
      \<and> fst ` set own \<subseteq> fst ` set d
      \<and> length own \<le> card (fst ` set d)"
    by (auto simp: isObjectOf_def isObjectOfStrict_Obj_iff)
  have 2: "distinct (map fst own) \<and> fst ` set own \<subseteq> fst ` set d \<longrightarrow>
        length own \<le> card (fst ` set d)"
    using strict_count [of own d] by blast
  have 3: "distinct (map fst own) \<and> fst ` set own \<subset> fst ` set d
        \<and> (\<forall>(k, p)\<in>set d. accepts p (getProp own rest k))
      \<longrightarrow> isObjectOf d True (Obj own rest protos) = Inr True"
    unfolding 1 using 2 by blast
  have 4: "map_of own k = None \<and> map_of rest k = None \<longrightarrow> getProp own rest k = Inr undefined_val"
    "map_of own k = None \<and> map_of rest k = Some (e, s) \<longrightarrow> getProp own rest k = readSlot s"
    by (simp_all add: getProp_def)
  show ?thesis using 1 2 3 4 by blast
qed

theorem isObjectOf_strict_subset_witness:
  "distinct (map fst ([] :: (string \<times> jsval slot) list))
   \<and> fst ` set ([] :: (string \<times> jsval slot) list) \<subset> fst ` set [(''a'', isOptionalOf_fn isString)]
   \<and> getProp [] literalRest ''a'' = Inr undefined_val
   \<and> isObjectOf [(''a'', isOptionalOf_fn isString)] True (objectLiteral []) = Inr True
   \<and> getProp [] literalRest ''constructor'' = Inr (Fun 100)"
proof -
  have 1: "distinct (map fst ([] :: (string \<times> jsval slot) list))" by simp
  have 2: "fst ` set ([] :: (string \<times> jsval slot) list) \<subset> fst ` set [(''a'', isOptionalOf_fn isString)]"
    by auto
  have 3: "\<forall>(k, p)\<in>set [(''a'', isOptionalOf_fn isString)]. accepts p (getProp [] literalRest k)"
    by (simp add: accepts_def getProp_def map_of_literalRest isOptionalOf_fn_def isUndefined_def)
  have m: "map_of ([] :: (string \<times> jsval slot) list) ''a'' = None"
    "map_of ([] :: (string \<times> jsval slot) list) ''constructor'' = None"
    by simp_all
  show ?thesis
    using isObjectOf_strict_subset [of "[(''a'', isOptionalOf_fn isString)]" "[]" literalRest
        "[objectProto]" "''a''" False "Value num0"]
      isObjectOf_strict_subset [of "[(''a'', isOptionalOf_fn isString)]" "[]" literalRest
        "[objectProto]" "''constructor''" False "Value (Fun 100)"]
      1 2 3 m map_of_literalRest
    by (simp add: objectLiteral_def readSlot_def)
qed

text \<open>
  C9 as stated fails for a key that the value leaves out but inherits. The keys of \<^verbatim>\<open>{}\<close>
  are a proper subset of those of \<^verbatim>\<open>{ constructor: isOptionalOf(isString) }\<close> and the
  predicate accepts \<^verbatim>\<open>undefined\<close>, yet the strict predicate returns \<^verbatim>\<open>false\<close>: the read gives
  the inherited function, not \<^verbatim>\<open>undefined\<close>.
\<close>

theorem isObjectOf_strict_subset_counterexample:
  "objectLiteral [] = Obj [] literalRest [objectProto]
   \<and> fst ` set ([] :: (string \<times> jsval slot) list)
        \<subset> fst ` set [(''constructor'', isOptionalOf_fn isString)]
   \<and> isOptionalOf_fn isString undefined_val = Inr True
   \<and> getProp [] literalRest ''constructor'' = Inr (Fun 100)
   \<and> isObjectOf [(''constructor'', isOptionalOf_fn isString)] True (objectLiteral []) = Inr False"
proof (intro conjI)
  show "objectLiteral [] = Obj [] literalRest [objectProto]"
    by (simp add: objectLiteral_def)
  show "fst ` set ([] :: (string \<times> jsval slot) list)
        \<subset> fst ` set [(''constructor'', isOptionalOf_fn isString)]"
    by auto
  show "isObjectOf [(''constructor'', isOptionalOf_fn isString)] True (objectLiteral []) = Inr False"
    by (rule strict_examples)
qed (simp_all add: isOptionalOf_fn_def isUndefined_def getProp_def readSlot_def
    map_of_literalRest)

section \<open>Predicates return booleans\<close>










































end
